theory Spec2Isabelle
  imports Main "HOL-Library.Sublist"
begin

section \<open>The firmware updater \<open>braiins-os/updater/update.py\<close>\<close>

text \<open>
  The script upgrades the firmware of a list of hosts, one after the other. For each host it
  opens a remote session, runs \<open>opkg update\<close>, waits a second, runs
  \<open>opkg install firmware\<close> and treats a hangup of the install command as success. The
  batch loop counts the failures and, unless \<open>--ignore\<close> is given, exits at the first one.

  The embedding is shallow: every Python function becomes a HOL function that returns the
  function's result together with the list of the effects it performed, in order. The outside
  world (the remote hosts, the batch file, the password prompt) is a parameter of the model.
  Only synchronous exceptions deriving from \<open>Exception\<close> are modelled; an operator interrupt
  (\<open>KeyboardInterrupt\<close>) is asynchronous and outside the model.
\<close>

subsection \<open>Exceptions\<close>

text \<open>
  \<open>CalledProcessError\<close> (from \<open>subprocess\<close>) carries the return code and the captured output;
  every other exception is \<open>Exception\<close>. The last field of both is the text that \<open>'%s' % ex\<close>
  gives.
\<close>

datatype exn =
    CalledProcessError (returncode: int) (stdout: string) (stderr: string) (message: string)
  | Exception (message: string)

datatype pyclass = Exception_class | CalledProcessError_class

text \<open>\<open>CalledProcessError\<close> is a subclass of \<open>SubprocessError\<close>, itself a subclass of \<open>Exception\<close>.\<close>

fun isinstance :: "exn \<Rightarrow> pyclass \<Rightarrow> bool" where
  "isinstance ex Exception_class = True"
| "isinstance (CalledProcessError rc out err msg) CalledProcessError_class = True"
| "isinstance (Exception msg) CalledProcessError_class = False"

text \<open>\<open>signal.SIGHUP\<close> on POSIX.\<close>

definition SIGHUP :: int where
  "SIGHUP = 1"

definition USERNAME :: string where
  "USERNAME = ''root''"

subsection \<open>Effects\<close>

text \<open>
  A host is what \<open>update_one\<close> receives: a string, or \<open>None\<close> when \<open>args.hostname\<close> was not
  given on the command line.
\<close>

type_synonym host = "string option"

datatype event =
    Print string
  | Getpass string
  | Connect host string string
  | Run string
  | Sleep nat
  | Close

text \<open>The hosts for which an upgrade was attempted, in order: one \<open>Connect\<close> per attempt.\<close>

fun attempted :: "event list \<Rightarrow> host list" where
  "attempted [] = []"
| "attempted (Connect h u p # w) = h # attempted w"
| "attempted (e # w) = attempted w"

subsection \<open>String formatting\<close>

definition digit :: "nat \<Rightarrow> char" where
  "digit d = ''0123456789'' ! d"

fun str_nat :: "nat \<Rightarrow> string" where
  "str_nat n = (if n < 10 then [digit n] else str_nat (n div 10) @ [digit (n mod 10)])"

declare str_nat.simps [simp del]

definition str_int :: "int \<Rightarrow> string" where
  "str_int i = (if i < 0 then ''-'' @ str_nat (nat (- i)) else str_nat (nat i))"

text \<open>\<open>'%s' % host\<close>\<close>

definition str_host :: "host \<Rightarrow> string" where
  "str_host h = (case h of None \<Rightarrow> ''None'' | Some s \<Rightarrow> s)"

subsection \<open>The remote session\<close>

text \<open>
  Modelled from the spec: the class \<open>SSHManager\<close> of \<open>upgrade.ssh\<close> is not among the sources.
  The spec gives it as the remote session capability:
  \<open>connect(host, username, password) -> Session | raises ConnectionError\<close>,
  \<open>Session.run(command) -> (stdout, stderr) | raises CommandError{exit_code}\<close> and
  \<open>Session.close()\<close>. What one session does is a parameter: whether connecting raises, and
  what each command returns or raises. Leaving the \<open>with\<close> block closes the session; closing
  neither raises nor swallows the exception that left the block.
\<close>

record session =
  connect :: "exn option"
  run :: "string \<Rightarrow> exn + string \<times> string"

type_synonym SSHManager = "host \<Rightarrow> string \<Rightarrow> string \<Rightarrow> session"

definition ssh_run :: "session \<Rightarrow> string \<Rightarrow> (exn + string \<times> string) \<times> event list" where
  "ssh_run ssh cmd = (run ssh cmd, [Run cmd])"

text \<open>\<open>with SSHManager(host, user, passwd) as ssh: body\<close>\<close>

definition with_SSHManager ::
  "SSHManager \<Rightarrow> host \<Rightarrow> string \<Rightarrow> string \<Rightarrow>
   (session \<Rightarrow> (exn + 'a) \<times> event list) \<Rightarrow> (exn + 'a) \<times> event list" where
  "with_SSHManager mgr host user passwd body =
     (let ssh = mgr host user passwd in
      case connect ssh of
        Some ex \<Rightarrow> (Inl ex, [Connect host user passwd])
      | None \<Rightarrow> (case body ssh of (r, w) \<Rightarrow> (r, [Connect host user passwd] @ w @ [Close])))"

subsection \<open>\<open>update_one\<close>\<close>

text \<open>
  \<^verbatim>\<open>
  def update_one(host, password):
      print('Updating %s...' % host)
      with SSHManager(host, USERNAME, password) as ssh:
          stdout, stderr = ssh.run('opkg update')
          time.sleep(1)  # opkg may hold lock for a while
          try:
              stdout, stderr = ssh.run('opkg install firmware')
          except CalledProcessError as ex:
              if ex.returncode == -signal.SIGHUP:
                  # if all goes well update process reboots which kills ssh server
                  return
              raise
  \<close>
  \<open>Inr ()\<close> is the normal return, \<open>Inl ex\<close> the exception that leaves the function.
\<close>

definition update_one :: "SSHManager \<Rightarrow> host \<Rightarrow> string \<Rightarrow> (exn + unit) \<times> event list" where
  "update_one mgr host passwd =
     (case with_SSHManager mgr host USERNAME passwd (\<lambda>ssh.
        case ssh_run ssh ''opkg update'' of
          (Inl ex, w1) \<Rightarrow> (Inl ex, w1)
        | (Inr out1, w1) \<Rightarrow>
            (case ssh_run ssh ''opkg install firmware'' of
               (Inr out2, w2) \<Rightarrow> (Inr (), w1 @ [Sleep 1] @ w2)
             | (Inl ex, w2) \<Rightarrow>
                 (if isinstance ex CalledProcessError_class then
                    (if returncode ex = - SIGHUP then (Inr (), w1 @ [Sleep 1] @ w2)
                     else (Inl ex, w1 @ [Sleep 1] @ w2))
                  else (Inl ex, w1 @ [Sleep 1] @ w2))))
      of (r, w) \<Rightarrow> (r, Print (''Updating '' @ str_host host @ ''...'') # w))"

subsection \<open>The batch loop of \<open>main\<close>\<close>

text \<open>How \<open>main\<close> ends: it returns, it calls \<open>sys.exit\<close>, or an exception leaves it.\<close>

datatype exit_arg = Code int | Msg string

datatype outcome = Return | SysExit exit_arg | Raise exn

text \<open>
  The body of the loop, for one host:
  \<^verbatim>\<open>
        try:
            update_one(host, password)
        except Exception as ex:
            error_count += 1
            print('Updating %s failed (%s)' % (host, ex))
            if not args.ignore:
                sys.exit(2)
        except CalledProcessError as ex:
            error_count += 1
            print(ex.stdout.read())
            print(ex.stderr.read())
            print('Updating %s failed (%s)' % (host, ex.returncode))
            if not args.ignore:
                sys.exit(3)
  \<close>
  The handlers are tried in the order they are written, and the first whose class the
  exception is an instance of handles it. The result is how the loop is left, if it is
  (\<open>None\<close>: go on with the next host), the new \<open>error_count\<close> and the effects.
\<close>

definition attempt ::
  "SSHManager \<Rightarrow> bool \<Rightarrow> host \<Rightarrow> string \<Rightarrow> nat \<Rightarrow> outcome option \<times> nat \<times> event list" where
  "attempt mgr ign host passwd error_count =
     (case update_one mgr host passwd of
        (Inr u, w) \<Rightarrow> (None, error_count, w)
      | (Inl ex, w) \<Rightarrow>
          if isinstance ex Exception_class then
            (let error_count = error_count + 1;
                 w = w @ [Print (''Updating '' @ str_host host @ '' failed ('' @ message ex @ '')'')]
             in if \<not> ign then (Some (SysExit (Code 2)), error_count, w)
                else (None, error_count, w))
          else if isinstance ex CalledProcessError_class then
            (let error_count = error_count + 1;
                 w = w @ [Print (stdout ex), Print (stderr ex),
                          Print (''Updating '' @ str_host host @ '' failed (''
                                 @ str_int (returncode ex) @ '')'')]
             in if \<not> ign then (Some (SysExit (Code 3)), error_count, w)
                else (None, error_count, w))
          else (Some (Raise ex), error_count, w))"

text \<open>
  \<open>for host in hosts\<close>: the \<open>k\<close>-th iteration talks to the world's \<open>k\<close>-th session, so that a
  host that is listed twice may behave differently the second time.
\<close>

fun for_hosts ::
  "(nat \<Rightarrow> SSHManager) \<Rightarrow> bool \<Rightarrow> string \<Rightarrow> nat \<Rightarrow> host list \<Rightarrow> nat \<Rightarrow>
   outcome option \<times> nat \<times> event list" where
  "for_hosts world ign passwd k [] error_count = (None, error_count, [])"
| "for_hosts world ign passwd k (host # hosts) error_count =
     (case attempt (world k) ign host passwd error_count of
        (Some out, error_count, w) \<Rightarrow> (Some out, error_count, w)
      | (None, error_count, w) \<Rightarrow>
          (case for_hosts world ign passwd (Suc k) hosts error_count of
             (out, error_count, w') \<Rightarrow> (out, error_count, w @ w')))"

text \<open>
  Lines 42 to 60 of \<open>main\<close>: the loop from \<open>error_count = 0\<close>, then
  \<^verbatim>\<open>
    if error_count:
        sys.exit('%d errors encountered' % error_count)
  \<close>
\<close>

definition run_hosts ::
  "(nat \<Rightarrow> SSHManager) \<Rightarrow> bool \<Rightarrow> string \<Rightarrow> host list \<Rightarrow> outcome \<times> event list" where
  "run_hosts world ign passwd hosts =
     (case for_hosts world ign passwd 0 hosts 0 of
        (Some out, error_count, w) \<Rightarrow> (out, w)
      | (None, error_count, w) \<Rightarrow>
          if error_count \<noteq> 0
          then (SysExit (Msg (str_nat error_count @ '' errors encountered'')), w)
          else (Return, w))"

subsection \<open>The arguments and the host list\<close>

record args =
  batch :: "string option"
  hostname :: "string option"
  password :: string
  ignore :: bool

text \<open>\<open>parser.add_argument('-p', '--password', default='')\<close>: the value of \<open>args.password\<close>
  when the flag is absent (\<open>None\<close>) and when it is given with a value.\<close>

definition password_argument :: "string option \<Rightarrow> string" where
  "password_argument given = (case given of None \<Rightarrow> '''' | Some v \<Rightarrow> v)"

text \<open>
  The world outside the process: what the password prompt returns, the rows that
  \<open>csv.reader(open(path))\<close> yields (or the exception that opening or reading raises), and the
  session that the \<open>k\<close>-th \<open>SSHManager(...)\<close> of the run gives.
\<close>

record env =
  getpass :: "string \<Rightarrow> exn + string"
  csv_reader :: "string \<Rightarrow> exn + string list list"
  ssh :: "nat \<Rightarrow> SSHManager"

text \<open>\<open>[row[0] for row in rows]\<close>: \<open>row[0]\<close> of an empty row raises \<open>IndexError\<close>.\<close>

fun first_fields :: "string list list \<Rightarrow> exn + string list" where
  "first_fields [] = Inr []"
| "first_fields ([] # rows) = Inl (Exception ''list index out of range'')"
| "first_fields ((f # fs) # rows) =
     (case first_fields rows of Inl ex \<Rightarrow> Inl ex | Inr hosts \<Rightarrow> Inr (f # hosts))"

text \<open>
  \<^verbatim>\<open>
  def main(args):
      if args.batch:
          if args.password:
              password = args.password
          else:
              password = getpass('Default password: ') or ''
          try:
              hosts = [row[0] for row in csv.reader(open(args.batch))]
          except Exception as ex:
              sys.exit('Invalid input file: %s (%s)' % (args.batch, ex))
          if hosts and hosts[0] == 'host':  # possibly skip csv header row
              hosts = hosts[1:]
      else:
          password = args.password or ''
          hosts = [args.hostname]
      ...
  \<close>
  \<open>args.batch\<close> is true when the option was given with a non-empty value.
\<close>

definition main :: "env \<Rightarrow> args \<Rightarrow> outcome \<times> event list" where
  "main e a =
     (case batch a of
        Some path \<Rightarrow>
          if path \<noteq> [] then
            (case (if password a \<noteq> [] then (Inr (password a), [])
                   else (case getpass e ''Default password: '' of
                           Inl ex \<Rightarrow> Inl ex
                         | Inr typed \<Rightarrow> Inr (if typed \<noteq> [] then typed else ''''),
                         [Getpass ''Default password: ''])) of
               (Inl ex, w0) \<Rightarrow> (Raise ex, w0)
             | (Inr passwd, w0) \<Rightarrow>
                 (case (case csv_reader e path of
                          Inl ex \<Rightarrow> Inl ex
                        | Inr rows \<Rightarrow> first_fields rows) of
                    Inl ex \<Rightarrow>
                      (SysExit (Msg (''Invalid input file: '' @ path @ '' ('' @ message ex @ '')'')), w0)
                  | Inr hosts \<Rightarrow>
                      (let hosts = (if hosts \<noteq> [] \<and> hd hosts = ''host'' then tl hosts else hosts)
                       in case run_hosts (ssh e) (ignore a) passwd (map Some hosts) of
                            (out, w) \<Rightarrow> (out, w0 @ w))))
          else
            run_hosts (ssh e) (ignore a) (if password a \<noteq> [] then password a else '''') [hostname a]
      | None \<Rightarrow>
          run_hosts (ssh e) (ignore a) (if password a \<noteq> [] then password a else '''') [hostname a])"

text \<open>
  The \<open>__main__\<close> block turns an exception that leaves \<open>main\<close> into \<open>sys.exit('error: %s' % ex)\<close>.
\<close>

definition script :: "env \<Rightarrow> args \<Rightarrow> outcome \<times> event list" where
  "script e a =
     (case main e a of
        (Raise ex, w) \<Rightarrow> (SysExit (Msg (''error: '' @ message ex)), w)
      | (out, w) \<Rightarrow> (out, w))"

text \<open>
  The exit status of the process: 0 when the script runs to its end, the number given to
  \<open>sys.exit\<close>, and 1 when \<open>sys.exit\<close> is given a message (which it prints on standard error).
\<close>

fun exit_status :: "outcome \<Rightarrow> int" where
  "exit_status Return = 0"
| "exit_status (SysExit (Code n)) = n"
| "exit_status (SysExit (Msg m)) = 1"
| "exit_status (Raise ex) = 1"

subsection \<open>Example worlds\<close>

text \<open>
  Concrete sessions, used to run the model on explicit inputs. \<open>session_of c refresh install\<close>
  is the session whose connection attempt gives \<open>c\<close>, whose \<open>opkg update\<close> gives \<open>refresh\<close>
  and whose other commands give \<open>install\<close>.
\<close>

definition session_of ::
  "exn option \<Rightarrow> (exn + string \<times> string) \<Rightarrow> (exn + string \<times> string) \<Rightarrow> session" where
  "session_of c refresh install =
     \<lparr>connect = c, run = (\<lambda>cmd. if cmd = ''opkg update'' then refresh else install)\<rparr>"

definition healthy :: SSHManager where
  "healthy = (\<lambda>h u p. session_of None (Inr (''Updated list'', '''')) (Inr (''Installed'', '''')))"

definition rebooting :: SSHManager where
  "rebooting = (\<lambda>h u p. session_of None (Inr (''Updated list'', ''''))
     (Inl (CalledProcessError (- SIGHUP) ''Upgrading'' ''Connection closed'' ''died with SIGHUP'')))"

definition broken_install :: SSHManager where
  "broken_install = (\<lambda>h u p. session_of None (Inr (''Updated list'', ''''))
     (Inl (CalledProcessError 1 '''' ''No space left'' ''exit status 1'')))"

definition broken_refresh :: SSHManager where
  "broken_refresh = (\<lambda>h u p. session_of None
     (Inl (CalledProcessError (- SIGHUP) '''' '''' ''died with SIGHUP'')) (Inr (''Installed'', '''')))"

definition dropped :: SSHManager where
  "dropped = (\<lambda>h u p. session_of None (Inr (''Updated list'', ''''))
     (Inl (Exception ''Socket is closed'')))"

definition unreachable :: SSHManager where
  "unreachable = (\<lambda>h u p. session_of (Some (Exception ''Unable to connect''))
     (Inr ('''', '''')) (Inr ('''', '''')))"

text \<open>
  A world in which the batch file has the given rows, the operator types \<open>typed\<close> at the
  password prompt, and the sessions are as given.
\<close>

definition example_env :: "string list list \<Rightarrow> (nat \<Rightarrow> SSHManager) \<Rightarrow> env" where
  "example_env rows world =
     \<lparr>getpass = (\<lambda>prompt. Inr ''typed''), csv_reader = (\<lambda>path. Inr rows), ssh = world\<rparr>"

lemmas example_defs =
  example_env_def session_of_def healthy_def rebooting_def broken_install_def
  broken_refresh_def dropped_def unreachable_def

lemmas run_defs =
  run_hosts_def attempt_def update_one_def with_SSHManager_def ssh_run_def
  USERNAME_def SIGHUP_def str_host_def Let_def

section \<open>What one upgrade does\<close>

lemma attempted_append: "attempted (w @ w') = attempted w @ attempted w'"
  by (induction w rule: attempted.induct) simp_all

text \<open>The three ways through \<open>update_one\<close>, each with the effects it performs.\<close>

lemma update_one_connect_fails:
  "connect (mgr host USERNAME passwd) = Some ex \<Longrightarrow>
   update_one mgr host passwd =
     (Inl ex, [Print (''Updating '' @ str_host host @ ''...''), Connect host USERNAME passwd])"
  by (simp add: update_one_def with_SSHManager_def)

lemma update_one_refresh_fails:
  "connect (mgr host USERNAME passwd) = None \<Longrightarrow>
   run (mgr host USERNAME passwd) ''opkg update'' = Inl ex \<Longrightarrow>
   update_one mgr host passwd =
     (Inl ex, [Print (''Updating '' @ str_host host @ ''...''), Connect host USERNAME passwd,
               Run ''opkg update'', Close])"
  by (simp add: update_one_def with_SSHManager_def ssh_run_def)

lemma update_one_installed:
  "connect (mgr host USERNAME passwd) = None \<Longrightarrow>
   run (mgr host USERNAME passwd) ''opkg update'' = Inr out1 \<Longrightarrow>
   update_one mgr host passwd =
     ((case run (mgr host USERNAME passwd) ''opkg install firmware'' of
         Inr out2 \<Rightarrow> Inr ()
       | Inl ex \<Rightarrow> if isinstance ex CalledProcessError_class \<and> returncode ex = - SIGHUP
                   then Inr () else Inl ex),
      [Print (''Updating '' @ str_host host @ ''...''), Connect host USERNAME passwd,
       Run ''opkg update'', Sleep 1, Run ''opkg install firmware'', Close])"
  by (simp add: update_one_def with_SSHManager_def ssh_run_def split: sum.splits)

lemma update_one_cases:
  obtains ex where "connect (mgr host USERNAME passwd) = Some ex"
  | ex where "connect (mgr host USERNAME passwd) = None"
      "run (mgr host USERNAME passwd) ''opkg update'' = Inl ex"
  | out1 where "connect (mgr host USERNAME passwd) = None"
      "run (mgr host USERNAME passwd) ''opkg update'' = Inr out1"
  by (cases "connect (mgr host USERNAME passwd)";
      cases "run (mgr host USERNAME passwd) ''opkg update''") auto

lemma attempted_update_one: "attempted (snd (update_one mgr host passwd)) = [host]"
  by (rule update_one_cases [of mgr host passwd])
     (simp_all add: update_one_connect_fails update_one_refresh_fails update_one_installed)

text \<open>The loop body after a normal return and after an exception.\<close>

lemma attempt_success:
  "fst (update_one mgr host passwd) = Inr u \<Longrightarrow>
   attempt mgr ign host passwd error_count = (None, error_count, snd (update_one mgr host passwd))"
  by (cases "update_one mgr host passwd") (simp add: attempt_def)

lemma attempt_failure:
  "fst (update_one mgr host passwd) = Inl ex \<Longrightarrow>
   attempt mgr ign host passwd error_count =
     (if ign then None else Some (SysExit (Code 2)), error_count + 1,
      snd (update_one mgr host passwd)
        @ [Print (''Updating '' @ str_host host @ '' failed ('' @ message ex @ '')'')])"
  by (cases "update_one mgr host passwd") (simp add: attempt_def Let_def)

lemma attempted_attempt: "attempted (snd (snd (attempt mgr ign host passwd error_count))) = [host]"
  by (cases "fst (update_one mgr host passwd)")
     (simp_all add: attempt_failure attempt_success attempted_append attempted_update_one)

section \<open>What the batch loop does\<close>

lemma for_hosts_ignore:
  "attempted (snd (snd (for_hosts world True passwd k hosts error_count))) = hosts
   \<and> fst (for_hosts world True passwd k hosts error_count) = None"
proof (induction hosts arbitrary: k error_count)
  case Nil
  show ?case by simp
next
  case (Cons host hosts)
  obtain ec w where a: "attempt (world k) True host passwd error_count = (None, ec, w)"
    by (cases "fst (update_one (world k) host passwd)")
       (simp_all add: attempt_failure attempt_success)
  have w: "attempted w = [host]"
    using attempted_attempt [of "world k" True host passwd error_count] a by simp
  obtain out ec' w' where r: "for_hosts world True passwd (Suc k) hosts ec = (out, ec', w')"
    by (cases "for_hosts world True passwd (Suc k) hosts ec") auto
  from Cons.IH [of "Suc k" ec] r have "attempted w' = hosts" "out = None"
    by simp_all
  with a r w show ?case
    by (simp add: attempted_append)
qed

lemma run_hosts_ignore: "attempted (snd (run_hosts world True passwd hosts)) = hosts"
  using for_hosts_ignore [of world passwd 0 hosts 0]
  by (cases "for_hosts world True passwd 0 hosts 0") (auto simp add: run_hosts_def)

lemma for_hosts_halt:
  assumes "k < length hosts"
    and "isl (fst (update_one (world (k0 + k)) (hosts ! k) passwd))"
  shows "fst (for_hosts world False passwd k0 hosts error_count) = Some (SysExit (Code 2))
       \<and> prefix (attempted (snd (snd (for_hosts world False passwd k0 hosts error_count))))
           (take (Suc k) hosts)"
  using assms
proof (induction hosts arbitrary: k k0 error_count)
  case Nil
  then show ?case by simp
next
  case (Cons host hosts)
  show ?case
  proof (cases "fst (update_one (world k0) host passwd)")
    case (Inl ex)
    then show ?thesis
      by (simp add: attempt_failure attempted_append attempted_update_one)
  next
    case (Inr u)
    then have k: "k \<noteq> 0"
      using Cons.prems by (cases k) auto
    then obtain j where j: "k = Suc j"
      by (cases k) auto
    with Cons.prems have "j < length hosts"
      and "isl (fst (update_one (world (Suc k0 + j)) (hosts ! j) passwd))"
      by simp_all
    from Cons.IH [OF this, of error_count]
    obtain ec w where r: "for_hosts world False passwd (Suc k0) hosts error_count
        = (Some (SysExit (Code 2)), ec, w)" and p: "prefix (attempted w) (take (Suc j) hosts)"
      by (cases "for_hosts world False passwd (Suc k0) hosts error_count") auto
    from Inr r p j show ?thesis
      by (simp add: attempt_success attempted_append attempted_update_one)
  qed
qed

lemma for_hosts_prefix:
  "prefix (attempted (snd (snd (for_hosts world ign passwd k hosts error_count)))) hosts"
proof (induction hosts arbitrary: k error_count)
  case Nil
  show ?case by simp
next
  case (Cons host hosts)
  obtain out ec w where a: "attempt (world k) ign host passwd error_count = (out, ec, w)"
    by (cases "attempt (world k) ign host passwd error_count") auto
  have w: "attempted w = [host]"
    using attempted_attempt [of "world k" ign host passwd error_count] a by simp
  show ?case
  proof (cases out)
    case None
    obtain out' ec' w' where r: "for_hosts world ign passwd (Suc k) hosts ec = (out', ec', w')"
      by (cases "for_hosts world ign passwd (Suc k) hosts ec") auto
    with Cons.IH [of "Suc k" ec] have "prefix (attempted w') hosts"
      by simp
    with a w r None show ?thesis
      by (simp add: attempted_append)
  next
    case (Some x)
    with a w show ?thesis
      by simp
  qed
qed

lemma run_hosts_prefix: "prefix (attempted (snd (run_hosts world ign passwd hosts))) hosts"
  using for_hosts_prefix [of world ign passwd 0 hosts 0]
  by (cases "for_hosts world ign passwd 0 hosts 0")
     (auto simp add: run_hosts_def split: option.splits)

text \<open>
  The loop is left early only through \<open>sys.exit(2)\<close>: the handler \<open>except Exception\<close> comes
  first and takes every exception, so the handler with \<open>sys.exit(3)\<close> is never reached.
\<close>

lemma for_hosts_outcome:
  "fst (for_hosts world ign passwd k hosts error_count) = None
   \<or> fst (for_hosts world ign passwd k hosts error_count) = Some (SysExit (Code 2))"
proof (induction hosts arbitrary: k error_count)
  case Nil
  show ?case by simp
next
  case (Cons host hosts)
  show ?case
  proof (cases "fst (update_one (world k) host passwd)")
    case (Inl ex)
    show ?thesis
    proof (cases ign)
      case True
      with Inl Cons.IH [of "Suc k" "error_count + 1"] show ?thesis
        by (auto simp add: attempt_failure split: prod.splits)
    next
      case False
      with Inl show ?thesis
        by (simp add: attempt_failure)
    qed
  next
    case (Inr u)
    with Cons.IH [of "Suc k" error_count] show ?thesis
      by (auto simp add: attempt_success split: prod.splits)
  qed
qed

lemma run_hosts_never_exits_with_3: "fst (run_hosts world ign passwd hosts) \<noteq> SysExit (Code 3)"
  using for_hosts_outcome [of world ign passwd 0 hosts 0]
  by (cases "for_hosts world ign passwd 0 hosts 0")
     (auto simp add: run_hosts_def split: if_splits)

lemma run_hosts_not_3: "run_hosts world ign passwd hosts = (SysExit (Code 3), w) \<Longrightarrow> False"
  using run_hosts_never_exits_with_3 [of world ign passwd hosts] by simp

lemma main_never_exits_with_3: "fst (main e a) \<noteq> SysExit (Code 3)"
  by (auto simp add: main_def Let_def run_hosts_never_exits_with_3
      split: option.splits sum.splits prod.splits if_splits dest: run_hosts_not_3)

text \<open>Two runs over explicit worlds: one that halts at the second host, one that goes on.\<close>

lemma halting_run_example:
  "attempted (snd (run_hosts (\<lambda>k. if k = 1 then unreachable else healthy) False ''secret''
                     [Some ''dev1'', Some ''dev2'', Some ''dev3'']))
     = [Some ''dev1'', Some ''dev2'']"
  by (simp add: example_defs run_defs)

lemma ignoring_run_example:
  "run_hosts (\<lambda>k. if k = 0 then broken_install else healthy) True ''secret''
     [Some ''dev1'', Some ''dev2'']
   = (SysExit (Msg ''1 errors encountered''),
      [Print ''Updating dev1...'', Connect (Some ''dev1'') ''root'' ''secret'', Run ''opkg update'',
       Sleep 1, Run ''opkg install firmware'', Close,
       Print ''Updating dev1 failed (exit status 1)'',
       Print ''Updating dev2...'', Connect (Some ''dev2'') ''root'' ''secret'', Run ''opkg update'',
       Sleep 1, Run ''opkg install firmware'', Close])"
  by (simp add: example_defs run_defs str_nat.simps digit_def)

lemma first_fields_rows: "[] \<notin> set rows \<Longrightarrow> first_fields rows = Inr (map hd rows)"
  by (induction rows rule: first_fields.induct) simp_all

lemma first_fields_blank:
  "[] \<in> set rows \<Longrightarrow> first_fields rows = Inl (Exception ''list index out of range'')"
  by (induction rows rule: first_fields.induct) auto

text \<open>
  A batch file with a row that has no field is rejected, whatever its other rows are, after
  the password has been settled and before any session is opened.
\<close>

lemma blank_row_is_invalid_input:
  assumes "batch a = Some path" and "path \<noteq> []"
    and "csv_reader e path = Inr rows" and "[] \<in> set rows"
    and "password a \<noteq> [] \<or> getpass e ''Default password: '' = Inr typed"
  shows "main e a =
           (SysExit (Msg (''Invalid input file: '' @ path @ '' (list index out of range)'')),
            if password a \<noteq> [] then [] else [Getpass ''Default password: ''])"
  using assms by (auto simp add: main_def first_fields_blank)

text \<open>Without a header, the first row is a host like the others.\<close>

lemma first_row_kept_without_header:
  assumes "batch a = Some path" and "path \<noteq> []"
    and "csv_reader e path = Inr ((f # fs) # rows)" and "f \<noteq> ''host''"
    and "[] \<notin> set rows" and "password a \<noteq> []"
  shows "main e a = run_hosts (ssh e) (ignore a) (password a) (Some f # map (Some \<circ> hd) rows)"
  using assms by (simp add: main_def first_fields_rows)

lemma empty_batch_file_succeeds:
  assumes "batch a = Some path" and "path \<noteq> []" and "password a \<noteq> []"
    and "csv_reader e path = Inr [] \<or> csv_reader e path = Inr [''host'' # fs]"
  shows "main e a = (Return, [])"
  using assms by (auto simp add: main_def run_hosts_def)

section \<open>The claims\<close>

text \<open>
  C1. When the refresh command succeeds and the install command raises a
  \<open>CalledProcessError\<close> whose return code is \<open>-SIGHUP\<close>, \<open>update_one\<close> returns normally and
  the batch loop does not count the host as failed (the error count is unchanged and the
  loop goes on), whatever the captured standard output, standard error and message are.
\<close>

theorem hangup_is_success:
  assumes "connect (mgr host USERNAME passwd) = None"
    and "run (mgr host USERNAME passwd) ''opkg update'' = Inr out1"
    and "run (mgr host USERNAME passwd) ''opkg install firmware''
           = Inl (CalledProcessError (- SIGHUP) out err msg)"
  shows "fst (update_one mgr host passwd) = Inr ()
       \<and> attempt mgr ign host passwd error_count
           = (None, error_count, snd (update_one mgr host passwd))"
proof -
  have "fst (update_one mgr host passwd) = Inr ()"
    using assms by (simp add: update_one_installed)
  then show ?thesis
    by (simp add: attempt_success)
qed

theorem hangup_is_success_witness:
  "fst (update_one rebooting (Some ''dev1'') ''secret'') = Inr ()
   \<and> attempt rebooting False (Some ''dev1'') ''secret'' 0
       = (None, 0, [Print ''Updating dev1...'', Connect (Some ''dev1'') ''root'' ''secret'',
                    Run ''opkg update'', Sleep 1, Run ''opkg install firmware'', Close])"
  using hangup_is_success [of rebooting "Some ''dev1''" "''secret''" "(''Updated list'', '''')"
      "''Upgrading''" "''Connection closed''" "''died with SIGHUP''" False 0]
  by (simp add: rebooting_def session_of_def update_one_installed USERNAME_def str_host_def)

text \<open>
  C2. With halt-on-error, a host that fails with a \<open>CalledProcessError\<close> should end the
  process with exit code 3 and any other failure with exit code 2. The code does not do
  this: the handler \<open>except Exception\<close> is written before \<open>except CalledProcessError\<close> and
  takes the \<open>CalledProcessError\<close> as well, so both runs below end with exit code 2.
\<close>

theorem command_failure_exits_with_2:
  "fst (main (example_env [] (\<lambda>k. broken_install))
          \<lparr>batch = None, hostname = Some ''dev1'', password = ''secret'', ignore = False\<rparr>)
     = SysExit (Code 2)
   \<and> exit_status (fst (script (example_env [] (\<lambda>k. broken_install))
          \<lparr>batch = None, hostname = Some ''dev1'', password = ''secret'', ignore = False\<rparr>)) = 2
   \<and> exit_status (fst (script (example_env [] (\<lambda>k. unreachable))
          \<lparr>batch = None, hostname = Some ''dev1'', password = ''secret'', ignore = False\<rparr>)) = 2"
  by (simp add: script_def main_def example_defs run_defs)

text \<open>
  C3. When the refresh command succeeds and the install command raises a
  \<open>CalledProcessError\<close> whose return code is not \<open>-SIGHUP\<close>, the error leaves \<open>update_one\<close>
  and the batch loop counts the host as an error.
\<close>

theorem other_install_failure_is_failed:
  assumes "connect (mgr host USERNAME passwd) = None"
    and "run (mgr host USERNAME passwd) ''opkg update'' = Inr out1"
    and "run (mgr host USERNAME passwd) ''opkg install firmware''
           = Inl (CalledProcessError rc out err msg)"
    and "rc \<noteq> - SIGHUP"
  shows "fst (update_one mgr host passwd) = Inl (CalledProcessError rc out err msg)
       \<and> fst (snd (attempt mgr ign host passwd error_count)) = error_count + 1"
proof -
  have "fst (update_one mgr host passwd) = Inl (CalledProcessError rc out err msg)"
    using assms by (simp add: update_one_installed)
  then show ?thesis
    by (simp add: attempt_failure)
qed

theorem other_install_failure_is_failed_witness:
  "fst (update_one broken_install (Some ''dev1'') ''secret'')
     = Inl (CalledProcessError 1 '''' ''No space left'' ''exit status 1'')
   \<and> fst (snd (attempt broken_install True (Some ''dev1'') ''secret'' 0)) = 1"
  using other_install_failure_is_failed [of broken_install "Some ''dev1''" "''secret''"
      "(''Updated list'', '''')" 1 "''''" "''No space left''" "''exit status 1''" True 0]
  by (simp add: broken_install_def session_of_def SIGHUP_def)

text \<open>
  C4. With halt-on-error (no \<open>--ignore\<close>), if the upgrade of the host at position \<open>k\<close> fails,
  the hosts attempted are an initial part of the first \<open>k + 1\<close> hosts of the list, so no
  host at a position greater than \<open>k\<close> is attempted, and the run ends with \<open>sys.exit\<close>.
\<close>

theorem halt_at_first_failure:
  assumes "k < length hosts"
    and "isl (fst (update_one (world k) (hosts ! k) passwd))"
  shows "prefix (attempted (snd (run_hosts world False passwd hosts))) (take (Suc k) hosts)
       \<and> (fst (run_hosts world False passwd hosts) = SysExit (Code 2)
          \<or> fst (run_hosts world False passwd hosts) = SysExit (Code 3))"
proof -
  from for_hosts_halt [of k hosts world 0 passwd 0] assms
  obtain ec w where r: "for_hosts world False passwd 0 hosts 0 = (Some (SysExit (Code 2)), ec, w)"
    and p: "prefix (attempted w) (take (Suc k) hosts)"
    by (cases "for_hosts world False passwd 0 hosts 0") auto
  then show ?thesis
    by (simp add: run_hosts_def)
qed

theorem halt_at_first_failure_witness:
  "(1::nat) < length [Some ''dev1'', Some ''dev2'', Some ''dev3'']
   \<and> isl (fst (update_one ((\<lambda>k. if k = 1 then unreachable else healthy) 1)
                 ([Some ''dev1'', Some ''dev2'', Some ''dev3''] ! 1) ''secret''))
   \<and> prefix (attempted (snd (run_hosts (\<lambda>k. if k = 1 then unreachable else healthy) False ''secret''
                                [Some ''dev1'', Some ''dev2'', Some ''dev3''])))
        (take (Suc 1) [Some ''dev1'', Some ''dev2'', Some ''dev3''])
   \<and> (fst (run_hosts (\<lambda>k. if k = 1 then unreachable else healthy) False ''secret''
             [Some ''dev1'', Some ''dev2'', Some ''dev3'']) = SysExit (Code 2)
      \<or> fst (run_hosts (\<lambda>k. if k = 1 then unreachable else healthy) False ''secret''
             [Some ''dev1'', Some ''dev2'', Some ''dev3'']) = SysExit (Code 3))"
proof -
  have h: "isl (fst (update_one ((\<lambda>k. if k = 1 then unreachable else healthy) 1)
                 ([Some ''dev1'', Some ''dev2'', Some ''dev3''] ! 1) ''secret''))"
    by (simp add: example_defs run_defs)
  have l: "(1::nat) < length [Some ''dev1'', Some ''dev2'', Some ''dev3'']"
    by simp
  note c = halt_at_first_failure [where k = 1 and passwd = "''secret''"
      and hosts = "[Some ''dev1'', Some ''dev2'', Some ''dev3'']"
      and world = "\<lambda>k. if k = 1 then unreachable else healthy", OF l h]
  from c l h show ?thesis
    by simp
qed

text \<open>
  C5. With \<open>--ignore\<close>, the hosts attempted are exactly the hosts of the list, in the order
  of the list and as many times as they are listed, whatever the individual upgrades do;
  the loop is never left through \<open>sys.exit(2)\<close> or \<open>sys.exit(3)\<close>.
\<close>

theorem ignore_attempts_every_host:
  "attempted (snd (run_hosts world True passwd hosts)) = hosts
   \<and> length (attempted (snd (run_hosts world True passwd hosts))) = length hosts
   \<and> fst (run_hosts world True passwd hosts) \<noteq> SysExit (Code 2)
   \<and> fst (run_hosts world True passwd hosts) \<noteq> SysExit (Code 3)"
proof -
  obtain ec w where r: "for_hosts world True passwd 0 hosts 0 = (None, ec, w)"
    using for_hosts_ignore [of world passwd 0 hosts 0]
    by (cases "for_hosts world True passwd 0 hosts 0") auto
  with for_hosts_ignore [of world passwd 0 hosts 0] have "attempted w = hosts"
    by simp
  with r show ?thesis
    by (simp add: run_hosts_def)
qed

text \<open>
  C6. When the refresh command raises, for whatever reason (a hangup included), the
  exception leaves \<open>update_one\<close>, the install command is not run, and the batch loop counts
  the host as an error.
\<close>

theorem refresh_failure_is_failed:
  assumes "connect (mgr host USERNAME passwd) = None"
    and "run (mgr host USERNAME passwd) ''opkg update'' = Inl ex"
  shows "fst (update_one mgr host passwd) = Inl ex
       \<and> Run ''opkg install firmware'' \<notin> set (snd (update_one mgr host passwd))
       \<and> fst (snd (attempt mgr ign host passwd error_count)) = error_count + 1"
proof -
  have u: "update_one mgr host passwd =
     (Inl ex, [Print (''Updating '' @ str_host host @ ''...''), Connect host USERNAME passwd,
               Run ''opkg update'', Close])"
    using assms by (rule update_one_refresh_fails)
  then have "fst (update_one mgr host passwd) = Inl ex"
    by simp
  then have "fst (snd (attempt mgr ign host passwd error_count)) = error_count + 1"
    by (simp add: attempt_failure)
  with u show ?thesis
    by simp
qed

theorem refresh_failure_is_failed_witness:
  "fst (update_one broken_refresh (Some ''dev1'') ''secret'')
     = Inl (CalledProcessError (- SIGHUP) '''' '''' ''died with SIGHUP'')
   \<and> Run ''opkg install firmware'' \<notin> set (snd (update_one broken_refresh (Some ''dev1'') ''secret''))
   \<and> fst (snd (attempt broken_refresh True (Some ''dev1'') ''secret'' 0)) = 1"
  using refresh_failure_is_failed [of broken_refresh "Some ''dev1''" "''secret''"
      "CalledProcessError (- SIGHUP) '''' '''' ''died with SIGHUP''" True 0]
  by (simp add: broken_refresh_def session_of_def)

text \<open>
  C7. For an empty host list the loop attempts nothing, the error count stays zero, and
  the run returns normally, with no effect at all: exit status 0 and no message.
\<close>

theorem empty_host_list_succeeds:
  "for_hosts world ign passwd 0 [] 0 = (None, 0, [])
   \<and> run_hosts world ign passwd [] = (Return, [])
   \<and> exit_status (fst (run_hosts world ign passwd [])) = 0"
  by (simp add: run_hosts_def)


text \<open>
  C8, as stated, fails on a batch file with a row that has no field. \<open>csv.reader\<close> gives the
  empty list for a blank line, \<open>row[0]\<close> raises \<open>IndexError\<close> there, and \<open>main\<close> leaves with
  \<open>Invalid input file\<close> before any host is attempted: for the rows \<open>host\<close>, \<open>dev1\<close>, a blank
  line and \<open>dev2\<close>, the hosts attempted are not \<open>dev1\<close> and \<open>dev2\<close> but none.
\<close>

theorem blank_row_rejects_file:
  "main (example_env [[''host''], [''dev1''], [], [''dev2'']] (\<lambda>k. healthy))
     \<lparr>batch = Some ''hosts.csv'', hostname = None, password = ''secret'', ignore = True\<rparr>
   = (SysExit (Msg ''Invalid input file: hosts.csv (list index out of range)''), [])
   \<and> attempted (snd (main (example_env [[''host''], [''dev1''], [], [''dev2'']] (\<lambda>k. healthy))
        \<lparr>batch = Some ''hosts.csv'', hostname = None, password = ''secret'', ignore = True\<rparr>))
      \<noteq> [Some ''dev1'', Some ''dev2'']"
  by (simp add: main_def example_env_def)

text \<open>
  C8, amended. For every batch file whose first row's first field is \<open>host\<close>, once the
  password is known (given with \<open>-p\<close>, or typed at the prompt):
  if every other row has at least one field, the header row is skipped and \<open>main\<close> is the
  batch loop over the first fields of the remaining rows, in file order, so that the hosts
  attempted are an initial part of that list, and the whole list with \<open>--ignore\<close>;
  if some row has no field (a blank line), the file is rejected with \<open>Invalid input file\<close>
  and no host is attempted. In particular the rows \<open>host\<close>, \<open>dev1\<close>, \<open>dev2\<close> give the host
  list \<open>dev1\<close>, \<open>dev2\<close>.
\<close>

theorem header_row_is_skipped:
  assumes "batch a = Some path" and "path \<noteq> []"
    and "csv_reader e path = Inr ((''host'' # fs) # rows)"
    and "password a \<noteq> [] \<or> getpass e ''Default password: '' = Inr typed"
  shows "main e a =
           (if [] \<in> set rows
            then (SysExit (Msg (''Invalid input file: '' @ path @ '' (list index out of range)'')),
                  if password a \<noteq> [] then [] else [Getpass ''Default password: ''])
            else (fst (run_hosts (ssh e) (ignore a)
                         (if password a \<noteq> [] then password a else typed)
                         (map (Some \<circ> hd) rows)),
                  (if password a \<noteq> [] then [] else [Getpass ''Default password: ''])
                  @ snd (run_hosts (ssh e) (ignore a)
                           (if password a \<noteq> [] then password a else typed)
                           (map (Some \<circ> hd) rows))))
       \<and> ([] \<in> set rows \<longrightarrow> attempted (snd (main e a)) = [])
       \<and> ([] \<notin> set rows \<longrightarrow> prefix (attempted (snd (main e a))) (map (Some \<circ> hd) rows))
       \<and> ([] \<notin> set rows \<and> ignore a
            \<longrightarrow> attempted (snd (main e a)) = map (Some \<circ> hd) rows)"
proof (cases "[] \<in> set rows")
  case True
  then have "[] \<in> set ((''host'' # fs) # rows)"
    by simp
  from blank_row_is_invalid_input [OF assms(1,2,3) this assms(4)] True show ?thesis
    by simp
next
  case False
  let ?pw = "if password a \<noteq> [] then password a else typed"
  let ?w0 = "if password a \<noteq> [] then [] else [Getpass ''Default password: '']"
  let ?r = "run_hosts (ssh e) (ignore a) ?pw (map (Some \<circ> hd) rows)"
  have f: "first_fields ((''host'' # fs) # rows) = Inr (''host'' # map hd rows)"
    using False by (simp add: first_fields_rows)
  have m: "main e a = (fst ?r, ?w0 @ snd ?r)"
    using assms f by (cases ?r) (auto simp add: main_def)
  have p: "prefix (attempted (snd ?r)) (map (Some \<circ> hd) rows)"
    by (rule run_hosts_prefix)
  have i: "ignore a \<longrightarrow> attempted (snd ?r) = map (Some \<circ> hd) rows"
    using run_hosts_ignore [of "ssh e" ?pw "map (Some \<circ> hd) rows"] by simp
  have s: "attempted (snd (main e a)) = attempted (snd ?r)"
    by (simp add: m attempted_append)
  have c1: "main e a = (if [] \<in> set rows
            then (SysExit (Msg (''Invalid input file: '' @ path @ '' (list index out of range)'')),
                  ?w0)
            else (fst ?r, ?w0 @ snd ?r))"
    using False m by simp
  from c1 p i False show ?thesis
    unfolding s by blast
qed

text \<open>
  The theorem at two files: the rows \<open>host\<close>, \<open>dev1\<close>, \<open>dev2\<close>, where both hosts are
  attempted, and the rows \<open>host\<close>, \<open>dev1\<close>, a blank line, \<open>dev2\<close>, where none is.
\<close>

theorem header_row_is_skipped_witness:
  "main (example_env [[''host''], [''dev1''], [''dev2'']] (\<lambda>k. healthy))
     \<lparr>batch = Some ''hosts.csv'', hostname = None, password = ''secret'', ignore = True\<rparr>
   = run_hosts (\<lambda>k. healthy) True ''secret'' [Some ''dev1'', Some ''dev2'']
   \<and> attempted (snd (main (example_env [[''host''], [''dev1''], [''dev2'']] (\<lambda>k. healthy))
        \<lparr>batch = Some ''hosts.csv'', hostname = None, password = ''secret'', ignore = True\<rparr>))
      = [Some ''dev1'', Some ''dev2'']
   \<and> main (example_env [[''host''], [''dev1''], [], [''dev2'']] (\<lambda>k. healthy))
        \<lparr>batch = Some ''hosts.csv'', hostname = None, password = '''', ignore = True\<rparr>
      = (SysExit (Msg ''Invalid input file: hosts.csv (list index out of range)''),
         [Getpass ''Default password: ''])
   \<and> attempted (snd (main (example_env [[''host''], [''dev1''], [], [''dev2'']] (\<lambda>k. healthy))
        \<lparr>batch = Some ''hosts.csv'', hostname = None, password = '''', ignore = True\<rparr>))
      = []"
proof -
  let ?a = "\<lparr>batch = Some ''hosts.csv'', hostname = None, password = ''secret'', ignore = True\<rparr>"
  let ?e = "example_env [[''host''], [''dev1''], [''dev2'']] (\<lambda>k. healthy)"
  have 1: "batch ?a = Some ''hosts.csv''" and 2: "''hosts.csv'' \<noteq> []"
    and 3: "csv_reader ?e ''hosts.csv'' = Inr ((''host'' # []) # [[''dev1''], [''dev2'']])"
    and 4: "password ?a \<noteq> [] \<or> getpass ?e ''Default password: '' = Inr ''typed''"
    by (simp_all add: example_env_def)
  note c = header_row_is_skipped [OF 1 2 3 4]
  have m: "main ?e ?a = run_hosts (\<lambda>k. healthy) True ''secret'' [Some ''dev1'', Some ''dev2'']"
    using c [THEN conjunct1] by (simp add: example_env_def)
  have t: "attempted (snd (main ?e ?a)) = [Some ''dev1'', Some ''dev2'']"
    using c [THEN conjunct2, THEN conjunct2, THEN conjunct2] by simp
  let ?b = "\<lparr>batch = Some ''hosts.csv'', hostname = None, password = '''', ignore = True\<rparr>"
  let ?f = "example_env [[''host''], [''dev1''], [], [''dev2'']] (\<lambda>k. healthy)"
  have 5: "batch ?b = Some ''hosts.csv''"
    and 6: "csv_reader ?f ''hosts.csv'' = Inr ((''host'' # []) # [[''dev1''], [], [''dev2'']])"
    and 7: "password ?b \<noteq> [] \<or> getpass ?f ''Default password: '' = Inr ''typed''"
    by (simp_all add: example_env_def)
  note d = header_row_is_skipped [OF 5 2 6 7]
  have n: "main ?f ?b = (SysExit (Msg ''Invalid input file: hosts.csv (list index out of range)''),
         [Getpass ''Default password: ''])"
    using d [THEN conjunct1] by simp
  have u: "attempted (snd (main ?f ?b)) = []"
    using d [THEN conjunct2, THEN conjunct1] by simp
  from m t n u show ?thesis
    by (intro conjI)
qed

text \<open>
  C9. Whenever \<open>update_one\<close> has opened the session, closing it is the last thing it does,
  and it does so exactly once, after the connection: this holds whether the function
  returns normally, returns after a hangup, or is left by an exception of the refresh or
  of the install command. When the connection itself fails there is no session to close.
\<close>

theorem session_closed_on_every_path:
  assumes "connect (mgr host USERNAME passwd) = None"
  shows "last (snd (update_one mgr host passwd)) = Close
       \<and> Close \<notin> set (butlast (snd (update_one mgr host passwd)))
       \<and> Connect host USERNAME passwd \<in> set (butlast (snd (update_one mgr host passwd)))"
proof (cases "run (mgr host USERNAME passwd) ''opkg update''")
  case (Inl ex)
  with assms show ?thesis
    by (simp add: update_one_refresh_fails)
next
  case (Inr out1)
  with assms show ?thesis
    by (simp add: update_one_installed)
qed

theorem session_closed_on_every_path_witness:
  "last (snd (update_one dropped (Some ''dev1'') ''secret'')) = Close
   \<and> Close \<notin> set (butlast (snd (update_one dropped (Some ''dev1'') ''secret'')))
   \<and> Connect (Some ''dev1'') USERNAME ''secret''
       \<in> set (butlast (snd (update_one dropped (Some ''dev1'') ''secret'')))"
  using session_closed_on_every_path [of dropped "Some ''dev1''" "''secret''"]
  by (simp add: dropped_def session_of_def)

text \<open>
  C10. In batch mode, \<open>-p ''\<close> and no \<open>-p\<close> at all give the same \<open>args.password\<close>, the empty
  string, so the two runs are the same run, and its first effect is the password prompt.
\<close>

theorem empty_password_prompts:
  assumes "batch a = Some path" and "path \<noteq> []"
  shows "main e (a\<lparr>password := password_argument (Some '''')\<rparr>)
           = main e (a\<lparr>password := password_argument None\<rparr>)
       \<and> take 1 (snd (main e (a\<lparr>password := password_argument (Some '''')\<rparr>)))
           = [Getpass ''Default password: '']"
  using assms
  by (auto simp add: main_def password_argument_def Let_def split: sum.splits prod.splits)

theorem empty_password_prompts_witness:
  "take 1 (snd (main (example_env [[''dev1'']] (\<lambda>k. healthy))
      (\<lparr>batch = Some ''hosts.csv'', hostname = None, password = ''anything'', ignore = False\<rparr>
        \<lparr>password := password_argument (Some '''')\<rparr>)))
     = [Getpass ''Default password: '']
   \<and> main (example_env [[''dev1'']] (\<lambda>k. healthy))
      (\<lparr>batch = Some ''hosts.csv'', hostname = None, password = ''anything'', ignore = False\<rparr>
        \<lparr>password := password_argument (Some '''')\<rparr>)
     = main (example_env [[''dev1'']] (\<lambda>k. healthy))
      (\<lparr>batch = Some ''hosts.csv'', hostname = None, password = ''anything'', ignore = False\<rparr>
        \<lparr>password := password_argument None\<rparr>)"
proof -
  let ?a = "\<lparr>batch = Some ''hosts.csv'', hostname = None, password = ''anything'', ignore = False\<rparr>"
  have 1: "batch ?a = Some ''hosts.csv''" and 2: "''hosts.csv'' \<noteq> []"
    by simp_all
  note c = empty_password_prompts [OF 1 2, of "example_env [[''dev1'']] (\<lambda>k. healthy)"]
  from c show ?thesis
    by blast
qed

end
